theory Spec2Isabelle
  imports Complex_Main
begin

section \<open>Data model\<close>

text \<open>
  JavaScript strings that come from the user or from the geocoder are lists of UTF-16
  code units (\<open>jsstr\<close>); the fixed ASCII vocabulary of the program (status keys, CSS
  class names, colours) is written as HOL strings. A coordinate that the store or the
  geocoder delivers is the real number that the double denotes. The distance that the
  radius search computes from coordinates is a \<open>jsnum\<close>; the rounded arithmetic of
  doubles and the functions of \<open>Math\<close> are not fixed here but passed as a parameter.
\<close>

type_synonym jsstr = "nat list"

definition lit :: "string \<Rightarrow> jsstr" where
  "lit s = map of_char s"

text \<open>
  A pin as the store delivers it. Optional text columns are \<open>None\<close> for
  \<open>null\<close>/\<open>undefined\<close>; the three flags are \<open>None\<close> when the column is not a
  boolean.
\<close>

record pin =
  pin_id :: nat \<comment> \<open>the store's opaque identifier, compared with \<open>===\<close>\<close>
  title :: string
  address :: "string option"
  status :: string
  summary :: "string option"
  url :: "string option"
  url_text :: "string option"
  lat :: real
  lng :: real
  show_donate :: "bool option"
  show_volunteer :: "bool option"
  show_help :: "bool option"
  created_at :: string

text \<open>JavaScript truthiness of an optional string: \<open>null\<close> and \<open>''\<close> are falsy.\<close>

definition truthy :: "string option \<Rightarrow> bool" where
  "truthy v = (case v of None \<Rightarrow> False | Some s \<Rightarrow> s \<noteq> [])"

text \<open>\<open>v || d\<close> on an optional string.\<close>

definition or_else :: "string option \<Rightarrow> string \<Rightarrow> string" where
  "or_else v d = (case v of None \<Rightarrow> d | Some s \<Rightarrow> if s \<noteq> [] then s else d)"

text \<open>\<open>x === true\<close> on a flag.\<close>

definition is_true :: "bool option \<Rightarrow> bool" where
  "is_true v = (v = Some True)"

subsection \<open>config.js\<close>

record status_entry =
  label :: string
  color :: string
  emoji :: jsstr

record config =
  DonateUrl :: string
  VolunteerUrl :: string
  RequestHelpUrl :: string

definition CONFIG :: config where
  "CONFIG = \<lparr> DonateUrl = ''https://www.unitedcajunnavy.org/donate'',
              VolunteerUrl = ''https://www.unitedcajunnavy.org/volunteer'',
              RequestHelpUrl = ''https://www.unitedcajunnavy.org/request-help'' \<rparr>"

definition status_critical :: status_entry where
  "status_critical = \<lparr> label = ''Critical'', color = ''#dc2626'', emoji = [0xD83D, 0xDD34] \<rparr>"

definition status_warning :: status_entry where
  "status_warning = \<lparr> label = ''Warning'', color = ''#f97316'', emoji = [0xD83D, 0xDFE0] \<rparr>"

definition status_active :: status_entry where
  "status_active = \<lparr> label = ''Active'', color = ''#16a34a'', emoji = [0xD83D, 0xDFE2] \<rparr>"

definition status_past :: status_entry where
  "status_past = \<lparr> label = ''Past'', color = ''#2563eb'', emoji = [0xD83D, 0xDD35] \<rparr>"

definition status_weather :: status_entry where
  "status_weather = \<lparr> label = ''Weather'', color = ''#eab308'', emoji = [0xD83D, 0xDFE1] \<rparr>"

text \<open>
  \<open>PIN_STATUS\<close> is an object literal, so a property read \<open>PIN_STATUS[k]\<close> first looks
  at the five own properties and then follows the prototype chain to
  \<open>Object.prototype\<close>, whose members (functions, and the prototype object itself for
  \<open>__proto__\<close>) are all truthy and have no \<open>color\<close> property.
\<close>

datatype js_lookup = Own status_entry | Inherited | Undefined

definition object_prototype_keys :: "string list" where
  "object_prototype_keys =
     [''constructor'', ''hasOwnProperty'', ''isPrototypeOf'', ''propertyIsEnumerable'',
      ''toLocaleString'', ''toString'', ''valueOf'', ''__proto__'',
      ''__defineGetter__'', ''__defineSetter__'', ''__lookupGetter__'', ''__lookupSetter__'']"

definition PIN_STATUS :: "string \<Rightarrow> js_lookup" where
  "PIN_STATUS k =
     (if k = ''critical'' then Own status_critical
      else if k = ''warning'' then Own status_warning
      else if k = ''active'' then Own status_active
      else if k = ''past'' then Own status_past
      else if k = ''weather'' then Own status_weather
      else if k \<in> set object_prototype_keys then Inherited
      else Undefined)"

text \<open>\<open>PIN_STATUS[s] || PIN_STATUS.active\<close>, and \<open>.color\<close> of the result.\<close>

definition status_or_active :: "string \<Rightarrow> js_lookup" where
  "status_or_active s = (case PIN_STATUS s of Undefined \<Rightarrow> PIN_STATUS ''active'' | v \<Rightarrow> v)"

definition color_of :: "js_lookup \<Rightarrow> string option" where
  "color_of v = (case v of Own e \<Rightarrow> Some (color e) | Inherited \<Rightarrow> None | Undefined \<Rightarrow> None)"

section \<open>map.js: markers and popups\<close>

text \<open>
  A DOM element built by \<open>createPopupContent\<close>: tag, class name, the attributes and
  style properties that were assigned, text content, children in order.
\<close>

datatype elem = Elem (tag: string) (className: string) (attrs: "(string \<times> string) list")
  (textContent: string) (children: "elem list")

text \<open>
  A Leaflet circle marker: the options the program passes (\<open>strokeColor\<close> is the
  option \<open>color\<close>, \<open>markerClass\<close> the option \<open>className\<close>), the pin stored on it,
  the bound popup, and the class list of its SVG path (\<open>None\<close> while
  \<open>getElement()\<close> returns nothing).
\<close>

record marker =
  latlng :: "real \<times> real"
  radius :: nat
  fillColor :: "string option"
  strokeColor :: string
  weight :: nat
  opacity :: real
  fillOpacity :: real
  markerClass :: string
  pinData :: "pin option"
  popup :: "elem option"
  element :: "string set option"

definition getMarkerClassName :: "string \<Rightarrow> string" where
  "getMarkerClassName st =
     (let baseClass = ''pin-marker--'' @ st
      in if st = ''past'' then baseClass else ''pin-marker--pulse '' @ baseClass)"

definition createPinMarker :: "pin \<Rightarrow> marker" where
  "createPinMarker p =
     (let st = status_or_active (status p);
          cls = getMarkerClassName (status p)
      in \<lparr> latlng = (lat p, lng p), radius = 10, fillColor = color_of st,
           strokeColor = ''#ffffff'', weight = 2, opacity = 1, fillOpacity = 0.9,
           markerClass = cls, pinData = Some p, popup = None, element = None \<rparr>)"

definition style_bg :: "string option \<Rightarrow> (string \<times> string) list" where
  "style_bg c = (case c of None \<Rightarrow> [] | Some v \<Rightarrow> [(''style.backgroundColor'', v)])"

definition button :: "string \<Rightarrow> string \<Rightarrow> string \<Rightarrow> elem" where
  "button cls href txt = Elem ''a'' cls [(''href'', href), (''target'', ''_blank'')] txt []"

definition action_buttons :: "pin \<Rightarrow> elem list" where
  "action_buttons p =
     (if is_true (show_donate p)
      then [button ''pin-popup__btn pin-popup__btn--donate'' (DonateUrl CONFIG) ''Donate''] else []) @
     (if is_true (show_volunteer p)
      then [button ''pin-popup__btn pin-popup__btn--volunteer'' (VolunteerUrl CONFIG) ''Volunteer''] else []) @
     (if is_true (show_help p)
      then [button ''pin-popup__btn pin-popup__btn--help'' (RequestHelpUrl CONFIG) ''Get Help''] else []) @
     (case url p of
        None \<Rightarrow> []
      | Some u \<Rightarrow>
          if u \<noteq> []
          then [button ''pin-popup__btn pin-popup__btn--url'' u (or_else (url_text p) ''More Info'')]
          else [])"

text \<open>
  \<open>toLocaleDateString\<close> depends on the browser's locale; it is a parameter.
\<close>

definition createPopupContent :: "(string \<Rightarrow> string) \<Rightarrow> pin \<Rightarrow> elem" where
  "createPopupContent toLocaleDateString p =
     (let st = status_or_active (status p);
          date = toLocaleDateString (created_at p);
          statusDot = Elem ''span'' ''pin-popup__status'' (style_bg (color_of st)) [] [];
          titleEl = Elem ''span'' ''pin-popup__title'' [] (title p) [];
          header = Elem ''div'' ''pin-popup__header'' [] [] [statusDot, titleEl];
          dateEl = Elem ''div'' ''pin-popup__date'' [] date [];
          addressEls = (case address p of
                          None \<Rightarrow> []
                        | Some a \<Rightarrow> if a \<noteq> [] then [Elem ''div'' ''pin-popup__address'' [] a []] else []);
          summaryEls = (case summary p of
                          None \<Rightarrow> []
                        | Some t \<Rightarrow> if t \<noteq> [] then [Elem ''p'' ''pin-popup__summary'' [] t []] else []);
          actionEls = (if is_true (show_donate p) \<or> is_true (show_volunteer p) \<or> is_true (show_help p)
                       then [Elem ''div'' ''pin-popup__actions'' [] [] (action_buttons p)] else [])
      in Elem ''div'' ''pin-popup'' [] [] ([header, dateEl] @ addressEls @ summaryEls @ actionEls))"


text \<open>
  The marker layer group of map.js is the list of its markers in insertion order. The
  group sits on the map, so a marker added to it is rendered: Leaflet creates its SVG
  path and gives it the classes of the \<open>className\<close> option.
\<close>

fun split_on :: "'a \<Rightarrow> 'a list \<Rightarrow> 'a list list" where
  "split_on c [] = [[]]"
| "split_on c (x # xs) =
     (if x = c then [] # split_on c xs
      else (case split_on c xs of [] \<Rightarrow> [[x]] | w # ws \<Rightarrow> (x # w) # ws))"

text \<open>
  Leaflet adds the words of a class name one by one, splitting it at white space
  (\<open>/\s+/\<close>); among the characters of a HOL string these are the code points 9 to 13,
  32 and 160. The class names of this program start with \<open>pin-marker--\<close>, so there
  is always a first word. A path is interactive by default, for which Leaflet adds the
  class \<open>leaflet-interactive\<close>.
\<close>

definition is_space_char :: "char \<Rightarrow> bool" where
  "is_space_char c = ((of_char c :: nat) \<in> {0x09, 0x0A, 0x0B, 0x0C, 0x0D, 0x20, 0xA0})"

fun split_when :: "('a \<Rightarrow> bool) \<Rightarrow> 'a list \<Rightarrow> 'a list list" where
  "split_when f [] = [[]]"
| "split_when f (x # xs) =
     (if f x then [] # split_when f xs
      else (case split_when f xs of [] \<Rightarrow> [[x]] | w # ws \<Rightarrow> (x # w) # ws))"

definition class_tokens :: "string \<Rightarrow> string set" where
  "class_tokens s = set (filter (\<lambda>w. w \<noteq> []) (split_when is_space_char s))"

definition addLayer :: "marker \<Rightarrow> marker list \<Rightarrow> marker list" where
  "addLayer m layers =
     layers @ [m\<lparr>element := Some (insert ''leaflet-interactive'' (class_tokens (markerClass m)))\<rparr>]"

definition addPinToMap :: "(string \<Rightarrow> string) \<Rightarrow> pin \<Rightarrow> marker list \<Rightarrow> marker list" where
  "addPinToMap fmt p layers =
     (let m = createPinMarker p;
          popupContent = createPopupContent fmt p
      in addLayer (m\<lparr>popup := Some popupContent\<rparr>) layers)"

definition renderPins :: "(string \<Rightarrow> string) \<Rightarrow> pin list \<Rightarrow> marker list \<Rightarrow> marker list" where
  "renderPins fmt pins layers = foldl (\<lambda>ls p. addPinToMap fmt p ls) [] pins"

definition removePinFromMap :: "nat \<Rightarrow> marker list \<Rightarrow> marker list" where
  "removePinFromMap pid layers =
     filter (\<lambda>layer. \<not> (case pinData layer of None \<Rightarrow> False | Some p \<Rightarrow> pin_id p = pid)) layers"

definition dimmed_class :: string where
  "dimmed_class = ''pin-marker--dimmed''"

definition applyFilter_layer :: "string set \<Rightarrow> marker \<Rightarrow> marker" where
  "applyFilter_layer activeStatuses layer =
     (case pinData layer of
        None \<Rightarrow> layer
      | Some p \<Rightarrow>
          (case element layer of
             None \<Rightarrow> layer
           | Some el \<Rightarrow>
               if status p \<in> activeStatuses
               then layer\<lparr>element := Some (el - {dimmed_class})\<rparr>
               else layer\<lparr>element := Some (insert dimmed_class el)\<rparr>))"

definition applyFilter :: "string set \<Rightarrow> marker list \<Rightarrow> marker list" where
  "applyFilter activeStatuses layers = map (applyFilter_layer activeStatuses) layers"

definition clearFilter_layer :: "marker \<Rightarrow> marker" where
  "clearFilter_layer layer =
     (case element layer of
        None \<Rightarrow> layer
      | Some el \<Rightarrow> layer\<lparr>element := Some (el - {dimmed_class})\<rparr>)"

definition clearFilter :: "marker list \<Rightarrow> marker list" where
  "clearFilter layers = map clearFilter_layer layers"

text \<open>A marker is dimmed when it is rendered and its element carries the dimmed class.\<close>

definition is_rendered :: "marker \<Rightarrow> bool" where
  "is_rendered m = (element m \<noteq> None)"

definition is_dimmed :: "marker \<Rightarrow> bool" where
  "is_dimmed m = (case element m of None \<Rightarrow> False | Some el \<Rightarrow> dimmed_class \<in> el)"

section \<open>main.js: state\<close>

text \<open>
  The search circle of main.js. \<open>mapOverlays\<close> are the circles that are layers of the
  Leaflet map; every circle object that \<open>L.circle\<close> creates is a new object, told
  apart here by \<open>layer_id\<close>.
\<close>

record circle =
  layer_id :: nat
  center :: "real \<times> real"
  circleRadius :: real

record main_state =
  pinsCache :: "pin list"
  activeFilters :: "string set"
  searchCircle :: "circle option"
  markersLayer :: "marker list"
  mapOverlays :: "circle list"
  mapView :: "((real \<times> real) \<times> nat) option"
  legendItems :: "(string \<times> bool) list"
  countEls :: "(string \<times> nat) list"
  lastUpdatedEl :: string
  searchResultText :: jsstr
  searchResultClasses :: "string set"
  nextLayerId :: nat

definition all_statuses :: "string list" where
  "all_statuses = [''critical'', ''warning'', ''active'', ''past'', ''weather'']"

section \<open>main.js: counts\<close>

text \<open>
  \<open>updateCounts\<close> starts from the object with the five counters at zero and, for every
  cached pin whose status names a defined property, increments it. Only the five own
  counters are modelled: a status that names a member of \<open>Object.prototype\<close> adds a
  property of its own and leaves the five counters as they are. The counters are then
  written to the count elements, \<open>countEls\<close>.
\<close>

definition count_pin :: "(string \<times> nat) list \<Rightarrow> pin \<Rightarrow> (string \<times> nat) list" where
  "count_pin counts p =
     map (\<lambda>(k, n). if k = status p then (k, n + 1) else (k, n)) counts"

definition counts_of :: "pin list \<Rightarrow> (string \<times> nat) list" where
  "counts_of pins = foldl count_pin (map (\<lambda>k. (k, 0)) all_statuses) pins"

definition updateCounts :: "main_state \<Rightarrow> main_state" where
  "updateCounts st = st\<lparr>countEls := counts_of (pinsCache st)\<rparr>"

definition updateLastUpdated :: "string \<Rightarrow> main_state \<Rightarrow> main_state" where
  "updateLastUpdated timeStr st = st\<lparr>lastUpdatedEl := ''Updated '' @ timeStr\<rparr>"

section \<open>main.js: realtime handlers\<close>

text \<open>
  The three callbacks that \<open>setupRealtime\<close> passes to \<open>subscribeToChanges\<close>. The
  parameters \<open>fmt\<close> and \<open>timeStr\<close> stand for the locale's date and time formatting.
\<close>

definition onInsert :: "(string \<Rightarrow> string) \<Rightarrow> string \<Rightarrow> pin \<Rightarrow> main_state \<Rightarrow> main_state" where
  "onInsert fmt timeStr newPin st =
     (let st1 = st\<lparr>pinsCache := pinsCache st @ [newPin]\<rparr>;
          st2 = st1\<lparr>markersLayer := addPinToMap fmt newPin (markersLayer st1)\<rparr>;
          st3 = updateCounts st2;
          st4 = updateLastUpdated timeStr st3
      in if status newPin \<notin> activeFilters st4
         then st4\<lparr>markersLayer := applyFilter (activeFilters st4) (markersLayer st4)\<rparr>
         else st4)"

text \<open>\<open>findIndex\<close>: the first index whose element satisfies the test, or \<open>None\<close> for -1.\<close>

fun findIndex :: "('a \<Rightarrow> bool) \<Rightarrow> 'a list \<Rightarrow> nat option" where
  "findIndex f [] = None"
| "findIndex f (x # xs) =
     (if f x then Some 0 else (case findIndex f xs of None \<Rightarrow> None | Some i \<Rightarrow> Some (Suc i)))"

definition onUpdate :: "(string \<Rightarrow> string) \<Rightarrow> string \<Rightarrow> pin \<Rightarrow> main_state \<Rightarrow> main_state" where
  "onUpdate fmt timeStr updatedPin st =
     (let st1 = (case findIndex (\<lambda>p. pin_id p = pin_id updatedPin) (pinsCache st) of
                   None \<Rightarrow> st
                 | Some index \<Rightarrow> st\<lparr>pinsCache := (pinsCache st)[index := updatedPin]\<rparr>);
          st2 = st1\<lparr>markersLayer := renderPins fmt (pinsCache st1) (markersLayer st1)\<rparr>;
          st3 = updateCounts st2;
          st4 = updateLastUpdated timeStr st3
      in st4\<lparr>markersLayer := applyFilter (activeFilters st4) (markersLayer st4)\<rparr>)"

definition onDelete :: "string \<Rightarrow> pin \<Rightarrow> main_state \<Rightarrow> main_state" where
  "onDelete timeStr deletedPin st =
     (let st1 = st\<lparr>pinsCache := filter (\<lambda>p. pin_id p \<noteq> pin_id deletedPin) (pinsCache st)\<rparr>;
          st2 = st1\<lparr>markersLayer := removePinFromMap (pin_id deletedPin) (markersLayer st1)\<rparr>;
          st3 = updateCounts st2
      in updateLastUpdated timeStr st3)"

section \<open>main.js: filters\<close>

definition updateFilterUI :: "main_state \<Rightarrow> main_state" where
  "updateFilterUI st =
     st\<lparr>legendItems := map (\<lambda>(s, d). (s, s \<notin> activeFilters st)) (legendItems st)\<rparr>"

definition toggleFilter :: "string \<Rightarrow> main_state \<Rightarrow> main_state" where
  "toggleFilter s st =
     (let st1 = (if s \<in> activeFilters st
                 then st\<lparr>activeFilters := activeFilters st - {s}\<rparr>
                 else st\<lparr>activeFilters := insert s (activeFilters st)\<rparr>);
          st2 = updateFilterUI st1
      in st2\<lparr>markersLayer := applyFilter (activeFilters st2) (markersLayer st2)\<rparr>)"

definition resetFilters :: "main_state \<Rightarrow> main_state" where
  "resetFilters st =
     (let st1 = st\<lparr>activeFilters := set all_statuses\<rparr>;
          st2 = updateFilterUI st1
      in st2\<lparr>markersLayer := clearFilter (markersLayer st2)\<rparr>)"

section \<open>main.js: search\<close>

definition SEARCH_RADIUS_MILES :: real where
  "SEARCH_RADIUS_MILES = 50"

definition NOMINATIM_URL :: string where
  "NOMINATIM_URL = ''https://nominatim.openstreetmap.org/search''"

subsection \<open>Distance\<close>

text \<open>
  A number that the program computes: a double, given by the real it denotes, or
  \<open>NaN\<close>. The arithmetic operators round and the functions of \<open>Math\<close> approximate, in
  a way that depends on the platform; \<open>js_arith\<close> holds them as the program uses them:
  \<open>+\<close>, \<open>-\<close>, \<open>*\<close>, \<open>/\<close>, \<open>Math.sin\<close>, \<open>Math.cos\<close>, \<open>Math.sqrt\<close>,
  \<open>Math.atan2\<close> and \<open>Math.PI\<close>. The comparison \<open><=\<close> does not round: it compares
  the two values and is false when either is \<open>NaN\<close>.
\<close>

datatype jsnum = Num real | NaN

record js_arith =
  f_add :: "jsnum \<Rightarrow> jsnum \<Rightarrow> jsnum"
  f_sub :: "jsnum \<Rightarrow> jsnum \<Rightarrow> jsnum"
  f_mul :: "jsnum \<Rightarrow> jsnum \<Rightarrow> jsnum"
  f_div :: "jsnum \<Rightarrow> jsnum \<Rightarrow> jsnum"
  Math_sin :: "jsnum \<Rightarrow> jsnum"
  Math_cos :: "jsnum \<Rightarrow> jsnum"
  Math_sqrt :: "jsnum \<Rightarrow> jsnum"
  Math_atan2 :: "jsnum \<Rightarrow> jsnum \<Rightarrow> jsnum"
  Math_PI :: jsnum

fun js_le :: "jsnum \<Rightarrow> jsnum \<Rightarrow> bool" where
  "js_le (Num x) (Num y) = (x \<le> y)"
| "js_le _ _ = False"

definition toRad :: "js_arith \<Rightarrow> jsnum \<Rightarrow> jsnum" where
  "toRad ar deg = f_mul ar deg (f_div ar (Math_PI ar) (Num 180))"

definition haversineDistance :: "js_arith \<Rightarrow> jsnum \<Rightarrow> jsnum \<Rightarrow> jsnum \<Rightarrow> jsnum \<Rightarrow> jsnum" where
  "haversineDistance ar lat1 lng1 lat2 lng2 =
     (let R = Num 3959;
          dLat = toRad ar (f_sub ar lat2 lat1);
          dLng = toRad ar (f_sub ar lng2 lng1);
          a = f_add ar
                (f_mul ar (Math_sin ar (f_div ar dLat (Num 2))) (Math_sin ar (f_div ar dLat (Num 2))))
                (f_mul ar
                   (f_mul ar
                      (f_mul ar (Math_cos ar (toRad ar lat1)) (Math_cos ar (toRad ar lat2)))
                      (Math_sin ar (f_div ar dLng (Num 2))))
                   (Math_sin ar (f_div ar dLng (Num 2))));
          c = f_mul ar (Num 2) (Math_atan2 ar (Math_sqrt ar a) (Math_sqrt ar (f_sub ar (Num 1) a)))
      in f_mul ar R c)"

definition findPinsInRadius :: "js_arith \<Rightarrow> jsnum \<Rightarrow> jsnum \<Rightarrow> jsnum \<Rightarrow> main_state \<Rightarrow> pin list" where
  "findPinsInRadius ar lat0 lng0 radiusMiles st =
     filter (\<lambda>p. js_le (haversineDistance ar lat0 lng0 (Num (lat p)) (Num (lng p))) radiusMiles)
       (pinsCache st)"

subsection \<open>The search circle\<close>

datatype js_error = TypeError | NetworkError | HttpError nat | SyntaxError

text \<open>
  What the expression \<open>getMap()\<close> evaluates to. In main.js \<open>getMap\<close> is the module's
  own \<open>async function\<close> (map.js's \<open>getMap\<close> is not imported), and
  \<open>drawSearchCircle\<close> calls it without \<open>await\<close>: the value is a promise. A promise
  has no \<open>removeLayer\<close> and no \<open>addLayer\<close> method, so calling either raises a
  \<open>TypeError\<close>; Leaflet's \<open>layer.addTo(map)\<close> calls \<open>map.addLayer(layer)\<close>.
\<close>

datatype map_handle = LeafletMap | PendingPromise

definition getMap :: map_handle where
  "getMap = PendingPromise"

text \<open>
  \<open>drawSearchCircle\<close> in two steps, for any value of \<open>map\<close>: removing the existing
  circle, then creating the new one and adding it. Each step returns the state it
  leaves and the exception it raised, if any. An exception ends the function where it
  is raised, so the assignment to \<open>searchCircle\<close> does not happen when \<open>addTo\<close>
  raises. The circle's colours and stroke are constants and are left out.
\<close>

definition removeExisting :: "map_handle \<Rightarrow> main_state \<Rightarrow> js_error option \<times> main_state" where
  "removeExisting h st =
     (case searchCircle st of
        None \<Rightarrow> (None, st)
      | Some c \<Rightarrow>
          (case h of
             PendingPromise \<Rightarrow> (Some TypeError, st)
           | LeafletMap \<Rightarrow>
               (None, st\<lparr>mapOverlays := filter (\<lambda>l. layer_id l \<noteq> layer_id c) (mapOverlays st)\<rparr>)))"

definition drawNew :: "map_handle \<Rightarrow> real \<Rightarrow> real \<Rightarrow> main_state \<Rightarrow> js_error option \<times> main_state" where
  "drawNew h lat0 lng0 st =
     (let c = \<lparr> layer_id = nextLayerId st, center = (lat0, lng0),
                circleRadius = SEARCH_RADIUS_MILES * 1609.34 \<rparr>;
          st1 = st\<lparr>nextLayerId := Suc (nextLayerId st)\<rparr>
      in case h of
           PendingPromise \<Rightarrow> (Some TypeError, st1)
         | LeafletMap \<Rightarrow> (None, st1\<lparr>mapOverlays := mapOverlays st1 @ [c], searchCircle := Some c\<rparr>))"

definition drawSearchCircle_on ::
  "map_handle \<Rightarrow> real \<Rightarrow> real \<Rightarrow> main_state \<Rightarrow> js_error option \<times> main_state" where
  "drawSearchCircle_on h lat0 lng0 st =
     (case removeExisting h st of
        (Some e, st1) \<Rightarrow> (Some e, st1)
      | (None, st1) \<Rightarrow> drawNew h lat0 lng0 st1)"

definition drawSearchCircle :: "real \<Rightarrow> real \<Rightarrow> main_state \<Rightarrow> js_error option \<times> main_state" where
  "drawSearchCircle lat0 lng0 st = drawSearchCircle_on getMap lat0 lng0 st"

subsection \<open>Input validation and geocoding\<close>

text \<open>\<open>String.prototype.trim\<close>: white space and line terminators of ECMAScript.\<close>

definition is_js_whitespace :: "nat \<Rightarrow> bool" where
  "is_js_whitespace c =
     (c \<in> {0x09, 0x0A, 0x0B, 0x0C, 0x0D, 0x20, 0xA0, 0x1680, 0x2028, 0x2029, 0x202F, 0x205F,
            0x3000, 0xFEFF} \<or> (0x2000 \<le> c \<and> c \<le> 0x200A))"

definition trim :: "jsstr \<Rightarrow> jsstr" where
  "trim s = rev (dropWhile is_js_whitespace (rev (dropWhile is_js_whitespace s)))"

text \<open>
  \<open>/^\d{5}$/.test(q)\<close>: without flags, \<open>\d\<close> is an ASCII digit and the anchors are
  the two ends of the string.
\<close>

definition is_digit :: "nat \<Rightarrow> bool" where
  "is_digit c = (0x30 \<le> c \<and> c \<le> 0x39)"

definition zip_test :: "jsstr \<Rightarrow> bool" where
  "zip_test q = (length q = 5 \<and> list_all is_digit q)"

datatype result_kind = KError | KSuccess | KNeutral

text \<open>
  What a run of \<open>handleSearch\<close> does to the outside, in order: messages shown, requests
  sent, the viewport moved, an error logged.
\<close>

datatype event =
    ShowSearchResult jsstr result_kind
  | Fetch string "(string \<times> jsstr) list"
  | SetView "real \<times> real" nat
  | ConsoleError

definition showSearchResult :: "jsstr \<Rightarrow> result_kind \<Rightarrow> main_state \<Rightarrow> main_state" where
  "showSearchResult message kind st =
     (let cl = searchResultClasses st -
                 {''is-hidden'', ''search-bar__result--error'', ''search-bar__result--success''};
          cl' = (case kind of
                   KError \<Rightarrow> insert ''search-bar__result--error'' cl
                 | KSuccess \<Rightarrow> insert ''search-bar__result--success'' cl
                 | KNeutral \<Rightarrow> cl)
      in st\<lparr>searchResultText := message, searchResultClasses := cl'\<rparr>)"

text \<open>
  The geocoder's answer, as \<open>geocode\<close> sees it: \<open>fetch\<close> rejects, or delivers a
  response whose \<open>ok\<close> flag is given and whose body parses (or fails to parse) to a list
  of matches. The coordinates of a match are given as \<open>parseFloat\<close> reads them.
\<close>

record geo_match =
  display_name :: jsstr
  match_lat :: real
  match_lon :: real

datatype geo_body = JsonRejects | Results "geo_match list"

datatype geo_response = FetchRejects | Response bool geo_body

record coords =
  c_lat :: real
  c_lng :: real
  display :: jsstr

fun join :: "'a list \<Rightarrow> 'a list list \<Rightarrow> 'a list" where
  "join sep [] = []"
| "join sep [x] = x"
| "join sep (x # y # ys) = x @ sep @ join sep (y # ys)"

definition geocode_request :: "jsstr \<Rightarrow> event" where
  "geocode_request zipCode =
     Fetch NOMINATIM_URL
       [(''q'', zipCode @ lit '', USA''), (''format'', lit ''json''), (''limit'', lit ''1''),
        (''countrycodes'', lit ''us'')]"

definition geocode :: "geo_response \<Rightarrow> jsstr \<Rightarrow> event list \<times> (js_error + coords option)" where
  "geocode net zipCode =
     ([geocode_request zipCode],
      (case net of
         FetchRejects \<Rightarrow> Inl NetworkError
       | Response ok body \<Rightarrow>
           if \<not> ok then Inr None
           else (case body of
                   JsonRejects \<Rightarrow> Inl SyntaxError
                 | Results [] \<Rightarrow> Inr None
                 | Results (result # _) \<Rightarrow>
                     (let parts = split_on 0x2C (display_name result);
                          disp = trim (join [0x2C] (take 2 parts))
                      in Inr (Some \<lparr> c_lat = match_lat result, c_lng = match_lon result,
                                      display = disp \<rparr>)))))"

text \<open>Decimal digits of a number in a template string.\<close>

fun digits_of :: "nat \<Rightarrow> jsstr" where
  "digits_of n = (if n < 10 then [0x30 + n] else digits_of (n div 10) @ [0x30 + n mod 10])"

definition msg_empty :: jsstr where
  "msg_empty = lit ''Please enter a zip code''"

definition msg_invalid :: jsstr where
  "msg_invalid = lit ''Please enter a valid 5-digit zip code''"

definition msg_searching :: jsstr where
  "msg_searching = lit ''Searching...''"

definition msg_not_found :: "jsstr \<Rightarrow> jsstr" where
  "msg_not_found query = lit ''Zip code '' @ query @ lit '' not found''"

definition msg_failed :: jsstr where
  "msg_failed = lit ''Search failed. Please try again.''"

definition msg_found_prefix :: "jsstr \<Rightarrow> coords \<Rightarrow> jsstr" where
  "msg_found_prefix query cs =
     [0x2713] @ lit '' Found '' @ query @ lit '' ('' @ display cs @ lit '') '' @ [0x2014] @ lit '' ''"

definition msg_none_within :: "jsstr \<Rightarrow> coords \<Rightarrow> jsstr" where
  "msg_none_within query cs = msg_found_prefix query cs @ lit ''No pins within 50 miles''"

definition msg_within :: "jsstr \<Rightarrow> coords \<Rightarrow> nat \<Rightarrow> jsstr" where
  "msg_within query cs n =
     msg_found_prefix query cs @ digits_of n @ lit '' pin'' @ (if n = 1 then [] else lit ''s'') @
     lit '' within 50 miles''"

text \<open>
  \<open>handleSearch\<close>, given the arithmetic, the text of the search box and the
  geocoder's answer, from
  the reading of the input on (\<open>e.preventDefault()\<close> comes first and touches nothing
  modelled here). It returns the events in order and the state it leaves. The \<open>catch\<close> block logs the
  exception and shows the failure message. \<open>handleSearch_on\<close> is the function for any
  value of \<open>getMap()\<close> inside \<open>drawSearchCircle\<close>; \<open>handleSearch\<close> is the function
  as main.js has it.
\<close>

definition show_ev :: "jsstr \<Rightarrow> result_kind \<Rightarrow> event list \<times> main_state \<Rightarrow> event list \<times> main_state" where
  "show_ev message kind r = (fst r @ [ShowSearchResult message kind], showSearchResult message kind (snd r))"

definition catch_block :: "event list \<times> main_state \<Rightarrow> event list \<times> main_state" where
  "catch_block r = show_ev msg_failed KError (fst r @ [ConsoleError], snd r)"

definition handleSearch_on ::
  "js_arith \<Rightarrow> map_handle \<Rightarrow> geo_response \<Rightarrow> jsstr \<Rightarrow> main_state \<Rightarrow> event list \<times> main_state" where
  "handleSearch_on ar h net input st =
     (let query = trim input
      in if query = [] then show_ev msg_empty KError ([], st)
         else if \<not> zip_test query then show_ev msg_invalid KError ([], st)
         else
           (let r1 = show_ev msg_searching KNeutral ([], st);
                (evs, res) = geocode net query;
                r2 = (fst r1 @ evs, snd r1)
            in case res of
                 Inl err \<Rightarrow> catch_block r2
               | Inr None \<Rightarrow> show_ev (msg_not_found query) KError r2
               | Inr (Some cs) \<Rightarrow>
                   (let nearbyPins = findPinsInRadius ar (Num (c_lat cs)) (Num (c_lng cs))
                                      (Num SEARCH_RADIUS_MILES) (snd r2);
                        r3 = (fst r2 @ [SetView (c_lat cs, c_lng cs) 9],
                              (snd r2)\<lparr>mapView := Some ((c_lat cs, c_lng cs), 9)\<rparr>);
                        (exn, st4) = drawSearchCircle_on h (c_lat cs) (c_lng cs) (snd r3);
                        r4 = (fst r3, st4)
                    in case exn of
                         Some err \<Rightarrow> catch_block r4
                       | None \<Rightarrow>
                           if length nearbyPins = 0
                           then show_ev (msg_none_within query cs) KNeutral r4
                           else show_ev (msg_within query cs (length nearbyPins)) KSuccess r4)))"

definition handleSearch ::
  "js_arith \<Rightarrow> geo_response \<Rightarrow> jsstr \<Rightarrow> main_state \<Rightarrow> event list \<times> main_state" where
  "handleSearch ar net input st = handleSearch_on ar getMap net input st"

section \<open>storage.js: loading the pins\<close>

text \<open>
  A value that \<open>JSON.parse\<close> can deliver. The elements of an array are the rows; the
  content of an object is of no concern here. \<open>js_truthy\<close> is JavaScript's truthiness:
  \<open>null\<close>, \<open>false\<close>, \<open>0\<close> and the empty string are falsy, everything else, the
  empty array included, is truthy.
\<close>

datatype 'row json = JNull | JBool bool | JNumber real | JString string | JArray "'row list" | JObject

fun js_truthy :: "'row json \<Rightarrow> bool" where
  "js_truthy JNull = False"
| "js_truthy (JBool b) = b"
| "js_truthy (JNumber x) = (x \<noteq> 0)"
| "js_truthy (JString t) = (t \<noteq> [])"
| "js_truthy (JArray rows) = True"
| "js_truthy JObject = True"

text \<open>
  What \<open>supabaseRequest\<close> meets on its way: the session query, \<open>fetch\<close>, the
  response's status and text, and \<open>JSON.parse\<close>. Each asynchronous step either
  rejects or delivers; \<open>parse\<close> is the parser's verdict on a body.
\<close>

record http_response =
  ok :: bool
  http_status :: nat
  body_text :: "js_error + string"

record 'row request_env =
  session_outcome :: "js_error + string option"
  fetch_outcome :: "js_error + http_response"
  parse :: "string \<Rightarrow> js_error + 'row json"

definition supabaseRequest :: "'row request_env \<Rightarrow> js_error + 'row json" where
  "supabaseRequest env =
     (case session_outcome env of
        Inl e \<Rightarrow> Inl e
      | Inr session \<Rightarrow>
          (case fetch_outcome env of
             Inl e \<Rightarrow> Inl e
           | Inr response \<Rightarrow>
               if \<not> ok response then
                 (case body_text response of
                    Inl e \<Rightarrow> Inl e
                  | Inr err \<Rightarrow> Inl (HttpError (http_status response)))
               else
                 (case body_text response of
                    Inl e \<Rightarrow> Inl e
                  | Inr txt \<Rightarrow> if txt \<noteq> [] then parse env txt else Inr JNull)))"

text \<open>
  \<open>getAllPins\<close> wraps the request in \<open>try\<close>/\<open>catch\<close>. Its result is the value its
  promise resolves to (\<open>Inr\<close>) or the exception it rejects with (\<open>Inl\<close>). The value is
  \<open>pins || []\<close>: the parsed body when that is truthy, the empty array otherwise.
\<close>

definition getAllPins :: "'row request_env \<Rightarrow> js_error + 'row json" where
  "getAllPins env =
     (case supabaseRequest env of
        Inr pins \<Rightarrow> Inr (if js_truthy pins then pins else JArray [])
      | Inl err \<Rightarrow> Inr (JArray []))"

text \<open>
  \<open>init\<close> from the loading of the pins up to the subscription: the cache is what
  \<open>getAllPins\<close> resolved to, the markers are rendered from it, the counts and the time
  stamp are refreshed. An exception ends \<open>init\<close>: one of \<open>getAllPins\<close>, or the
  \<open>TypeError\<close> of \<open>pins.forEach\<close> in \<open>renderPins\<close> when the cache is not an array.
\<close>

definition init_state :: "(string \<Rightarrow> string) \<Rightarrow> string \<Rightarrow> (string \<times> bool) list \<Rightarrow> string set \<Rightarrow>
    pin list \<Rightarrow> main_state" where
  "init_state fmt timeStr legend resultClasses pins =
     (let st0 = \<lparr> pinsCache = pins, activeFilters = set all_statuses, searchCircle = None,
                  markersLayer = renderPins fmt pins [], mapOverlays = [], mapView = None,
                  legendItems = legend, countEls = [], lastUpdatedEl = [],
                  searchResultText = [], searchResultClasses = resultClasses, nextLayerId = 0 \<rparr>
      in updateLastUpdated timeStr (updateCounts st0))"

definition init :: "(string \<Rightarrow> string) \<Rightarrow> string \<Rightarrow> (string \<times> bool) list \<Rightarrow> string set \<Rightarrow>
    pin request_env \<Rightarrow> js_error + main_state" where
  "init fmt timeStr legend resultClasses env =
     (case getAllPins env of
        Inl err \<Rightarrow> Inl err
      | Inr (JArray pins) \<Rightarrow> Inr (init_state fmt timeStr legend resultClasses pins)
      | Inr other \<Rightarrow> Inl TypeError)"

section \<open>Observations and sample data\<close>

text \<open>The action-button sections of a popup, and the class names of a section's buttons.\<close>

definition action_sections :: "elem \<Rightarrow> elem list" where
  "action_sections e = filter (\<lambda>c. className c = ''pin-popup__actions'') (children e)"

definition button_classes :: "elem \<Rightarrow> string list" where
  "button_classes sec = map className (children sec)"

text \<open>The marker that rendering a pin puts into the marker layer.\<close>

definition render_one :: "(string \<Rightarrow> string) \<Rightarrow> pin \<Rightarrow> marker" where
  "render_one fmt p =
     (createPinMarker p)\<lparr>popup := Some (createPopupContent fmt p),
                         element := Some (insert ''leaflet-interactive''
                                            (class_tokens (getMarkerClassName (status p))))\<rparr>"

text \<open>The circles on the map are the one that \<open>searchCircle\<close> holds, if any.\<close>

definition overlay_inv :: "main_state \<Rightarrow> bool" where
  "overlay_inv st = (mapOverlays st = (case searchCircle st of None \<Rightarrow> [] | Some c \<Rightarrow> [c]))"

text \<open>The number of cached records with a given identifier.\<close>

definition records_with :: "nat \<Rightarrow> pin list \<Rightarrow> nat" where
  "records_with i pins = length (filter (\<lambda>p. pin_id p = i) pins)"

definition cached_ids :: "main_state \<Rightarrow> nat set" where
  "cached_ids st = pin_id ` set (pinsCache st)"

text \<open>Sample pins and states for the worked examples.\<close>

definition pin_a :: pin where
  "pin_a = \<lparr> pin_id = 1, title = ''Shelter'', address = None, status = ''critical'',
      summary = None, url = None, url_text = None, lat = 30, lng = -91,
      show_donate = Some False, show_volunteer = Some False, show_help = Some False,
      created_at = ''2025-01-01'' \<rparr>"

definition pin_b :: pin where
  "pin_b = \<lparr> pin_id = 2, title = ''Depot'', address = Some ''Main St'', status = ''bogus'',
      summary = None, url = Some ''https://example.org'', url_text = None, lat = 31, lng = -92,
      show_donate = Some True, show_volunteer = Some False, show_help = None,
      created_at = ''2025-01-02'' \<rparr>"

definition pin_c :: pin where
  "pin_c = pin_a\<lparr> pin_id := 3, status := ''constructor'' \<rparr>"

definition sample_state :: "pin list \<Rightarrow> main_state" where
  "sample_state pins =
     init_state (\<lambda>s. s) ''12:00'' (map (\<lambda>k. (k, False)) all_statuses) {''is-hidden''} pins"

definition failing_env :: "pin request_env" where
  "failing_env = \<lparr> session_outcome = Inr None, fetch_outcome = Inl NetworkError,
                    parse = (\<lambda>txt. Inl SyntaxError) \<rparr>"

text \<open>A store that answers 200 with the body \<open>{}\<close>, which parses to an object.\<close>

definition object_env :: "pin request_env" where
  "object_env = \<lparr> session_outcome = Inr None,
                   fetch_outcome = Inr \<lparr> ok = True, http_status = 200, body_text = Inr ''{}'' \<rparr>,
                   parse = (\<lambda>txt. if txt = ''{}'' then Inr JObject else Inl SyntaxError) \<rparr>"

definition sample_match :: geo_match where
  "sample_match = \<lparr> display_name = lit ''New Orleans, Louisiana, United States'',
                     match_lat = 29.95, match_lon = -90.07 \<rparr>"

section \<open>Verification\<close>

subsection \<open>Radius search\<close>

text \<open>
  Whatever the arithmetic, the pins that \<open>findPinsInRadius\<close> returns are the cached
  pins whose computed distance compares \<open><=\<close> with the radius, in cache order; a
  distance that is \<open>NaN\<close> is never in range.
\<close>

lemma js_le_NaN: "\<not> js_le NaN r" "\<not> js_le d NaN"
  by (cases d; simp)+

lemma findPinsInRadius_member:
  "p \<in> set (findPinsInRadius ar la lo r st) \<longleftrightarrow>
     p \<in> set (pinsCache st) \<and> js_le (haversineDistance ar la lo (Num (lat p)) (Num (lng p))) r"
  by (simp add: findPinsInRadius_def)

subsection \<open>Realtime handlers\<close>

lemma onInsert_cache: "pinsCache (onInsert fmt t p st) = pinsCache st @ [p]"
  by (simp add: onInsert_def updateCounts_def updateLastUpdated_def Let_def)

lemma onInsert_counts: "countEls (onInsert fmt t p st) = counts_of (pinsCache st @ [p])"
  by (simp add: onInsert_def updateCounts_def updateLastUpdated_def Let_def)

lemma findIndex_None: "findIndex f xs = None \<longleftrightarrow> (\<forall>x \<in> set xs. \<not> f x)"
  by (induction xs) (auto split: option.splits)

lemma findIndex_Some:
  "findIndex f xs = Some i \<Longrightarrow> i < length xs \<and> f (xs ! i) \<and> (\<forall>j < i. \<not> f (xs ! j))"
proof (induction xs arbitrary: i)
  case Nil
  then show ?case by simp
next
  case (Cons x xs)
  show ?case
  proof (cases "f x")
    case True
    with Cons.prems show ?thesis by simp
  next
    case False
    with Cons.prems obtain k where k: "findIndex f xs = Some k" "i = Suc k"
      by (auto split: option.splits)
    from Cons.IH[OF k(1)] False k(2) show ?thesis
      by (auto simp: less_Suc_eq_0_disj)
  qed
qed

lemma onUpdate_cache_eq:
  "pinsCache (onUpdate fmt t u st) =
     (case findIndex (\<lambda>p. pin_id p = pin_id u) (pinsCache st) of
        None \<Rightarrow> pinsCache st | Some i \<Rightarrow> (pinsCache st)[i := u])"
  by (simp add: onUpdate_def updateCounts_def updateLastUpdated_def Let_def split: option.splits)

lemma onDelete_cache:
  "pinsCache (onDelete t d st) = filter (\<lambda>p. pin_id p \<noteq> pin_id d) (pinsCache st)"
  by (simp add: onDelete_def updateCounts_def updateLastUpdated_def Let_def)

lemma onDelete_counts: "countEls (onDelete t d st) = counts_of (pinsCache (onDelete t d st))"
  by (simp add: onDelete_def updateCounts_def updateLastUpdated_def Let_def)

lemma cached_ids_iff: "i \<in> cached_ids st \<longleftrightarrow> (\<exists>q \<in> set (pinsCache st). pin_id q = i)"
  by (auto simp: cached_ids_def image_iff)

lemma not_cached_iff: "i \<notin> cached_ids st \<longleftrightarrow> (\<forall>q \<in> set (pinsCache st). pin_id q \<noteq> i)"
  by (auto simp: cached_ids_def image_iff)

lemma sample_ids:
  "pin_id pin_a = 1" "pin_id pin_b = 2" "pin_id pin_c = 3"
  by (simp_all add: pin_a_def pin_b_def pin_c_def)

lemma sample_state_cache: "pinsCache (sample_state pins) = pins"
  by (simp add: sample_state_def init_state_def updateCounts_def updateLastUpdated_def Let_def)

text \<open>
  C2 (as amended). The insert handler appends the carried record whether or not its
  identifier is cached: the number of cached records with that identifier grows by
  one, so it is one exactly when the identifier was not cached before.
\<close>

theorem onInsert_appends:
  "pinsCache (onInsert fmt t p st) = pinsCache st @ [p] \<and>
   records_with (pin_id p) (pinsCache (onInsert fmt t p st)) =
     Suc (records_with (pin_id p) (pinsCache st)) \<and>
   (records_with (pin_id p) (pinsCache (onInsert fmt t p st)) = 1
      \<longleftrightarrow> pin_id p \<notin> cached_ids st)"
proof -
  have "records_with (pin_id p) (pinsCache st) = 0 \<longleftrightarrow> pin_id p \<notin> cached_ids st"
    by (simp add: records_with_def not_cached_iff filter_empty_conv)
  then show ?thesis
    by (simp add: onInsert_cache records_with_def)
qed

theorem onInsert_appends_witness:
  "pin_id pin_b \<notin> cached_ids (sample_state [pin_a]) \<and>
   pinsCache (onInsert (\<lambda>s. s) ''12:01'' pin_b (sample_state [pin_a])) = [pin_a, pin_b] \<and>
   records_with (pin_id pin_b) (pinsCache (onInsert (\<lambda>s. s) ''12:01'' pin_b (sample_state [pin_a]))) = 1"
  using onInsert_appends[of "\<lambda>s. s" "''12:01''" pin_b "sample_state [pin_a]"]
  by (simp add: sample_state_cache not_cached_iff sample_ids records_with_def)

text \<open>
  The claim as written fails: an insert event for an identifier that is already cached
  leaves two records with that identifier.
\<close>

theorem onInsert_duplicate_counterexample:
  "pin_id pin_a \<in> cached_ids (sample_state [pin_a]) \<and>
   records_with (pin_id pin_a) (pinsCache (onInsert (\<lambda>s. s) ''12:01'' pin_a (sample_state [pin_a]))) = 2"
  by (simp add: onInsert_cache sample_state_cache cached_ids_iff records_with_def)

text \<open>
  C5. An update event for an identifier that is not cached leaves the cache as it is;
  for a cached identifier the first record with that identifier is replaced by the
  carried record and every other entry stays; the length never changes.
\<close>

theorem onUpdate_cache:
  "(pin_id u \<notin> cached_ids st \<longrightarrow> pinsCache (onUpdate fmt t u st) = pinsCache st) \<and>
   (pin_id u \<in> cached_ids st \<longrightarrow>
      (\<exists>i < length (pinsCache st).
          pin_id (pinsCache st ! i) = pin_id u \<and>
          (\<forall>j < i. pin_id (pinsCache st ! j) \<noteq> pin_id u) \<and>
          pinsCache (onUpdate fmt t u st) = (pinsCache st)[i := u] \<and>
          pinsCache (onUpdate fmt t u st) ! i = u \<and>
          (\<forall>j < length (pinsCache st). j \<noteq> i \<longrightarrow>
               pinsCache (onUpdate fmt t u st) ! j = pinsCache st ! j))) \<and>
   length (pinsCache (onUpdate fmt t u st)) = length (pinsCache st)"
proof (intro conjI impI)
  assume "pin_id u \<notin> cached_ids st"
  then have "findIndex (\<lambda>p. pin_id p = pin_id u) (pinsCache st) = None"
    by (simp add: findIndex_None not_cached_iff)
  then show "pinsCache (onUpdate fmt t u st) = pinsCache st"
    by (simp add: onUpdate_cache_eq)
next
  assume "pin_id u \<in> cached_ids st"
  then have "findIndex (\<lambda>p. pin_id p = pin_id u) (pinsCache st) \<noteq> None"
    by (simp add: findIndex_None cached_ids_iff)
  then obtain i where i: "findIndex (\<lambda>p. pin_id p = pin_id u) (pinsCache st) = Some i"
    by auto
  from findIndex_Some[OF i] have b: "i < length (pinsCache st)"
    and m: "pin_id (pinsCache st ! i) = pin_id u"
    and f: "\<forall>j < i. pin_id (pinsCache st ! j) \<noteq> pin_id u"
    by auto
  have c: "pinsCache (onUpdate fmt t u st) = (pinsCache st)[i := u]"
    by (simp add: onUpdate_cache_eq i)
  show "\<exists>i < length (pinsCache st).
          pin_id (pinsCache st ! i) = pin_id u \<and>
          (\<forall>j < i. pin_id (pinsCache st ! j) \<noteq> pin_id u) \<and>
          pinsCache (onUpdate fmt t u st) = (pinsCache st)[i := u] \<and>
          pinsCache (onUpdate fmt t u st) ! i = u \<and>
          (\<forall>j < length (pinsCache st). j \<noteq> i \<longrightarrow>
               pinsCache (onUpdate fmt t u st) ! j = pinsCache st ! j)"
    using b m f c by (intro exI[of _ i]) simp
next
  show "length (pinsCache (onUpdate fmt t u st)) = length (pinsCache st)"
    by (simp add: onUpdate_cache_eq split: option.splits)
qed

theorem onUpdate_cache_witness:
  "pin_id pin_c \<notin> cached_ids (sample_state [pin_a, pin_b]) \<and>
   pinsCache (onUpdate (\<lambda>s. s) ''12:02'' pin_c (sample_state [pin_a, pin_b])) = [pin_a, pin_b] \<and>
   pin_id (pin_b\<lparr>title := ''Moved''\<rparr>) \<in> cached_ids (sample_state [pin_a, pin_b]) \<and>
   pinsCache (onUpdate (\<lambda>s. s) ''12:02'' (pin_b\<lparr>title := ''Moved''\<rparr>) (sample_state [pin_a, pin_b]))
     = [pin_a, pin_b\<lparr>title := ''Moved''\<rparr>]"
proof -
  have n: "pin_id pin_c \<notin> cached_ids (sample_state [pin_a, pin_b])"
    by (simp add: not_cached_iff sample_state_cache sample_ids)
  have y: "pin_id (pin_b\<lparr>title := ''Moved''\<rparr>) \<in> cached_ids (sample_state [pin_a, pin_b])"
    by (simp add: cached_ids_iff sample_state_cache)
  from onUpdate_cache[of pin_c "sample_state [pin_a, pin_b]" "\<lambda>s. s" "''12:02''"] n
  have 1: "pinsCache (onUpdate (\<lambda>s. s) ''12:02'' pin_c (sample_state [pin_a, pin_b])) = [pin_a, pin_b]"
    by (simp add: sample_state_cache)
  have 2: "pinsCache (onUpdate (\<lambda>s. s) ''12:02'' (pin_b\<lparr>title := ''Moved''\<rparr>) (sample_state [pin_a, pin_b]))
     = [pin_a, pin_b\<lparr>title := ''Moved''\<rparr>]"
    by (simp add: onUpdate_cache_eq sample_state_cache sample_ids)
  from n y 1 2 show ?thesis by simp
qed

text \<open>
  C7 (as amended). Insert followed by delete for the same identifier leaves the cache
  without any record of that identifier: the cache is the cache before the pair with
  the records of that identifier filtered out, and the counts shown are its counts.
  When the identifier was not cached before the pair, the cache and the counts are
  those before the pair.
\<close>

theorem insert_then_delete:
  assumes "pin_id d = pin_id p"
  shows "pin_id p \<notin> cached_ids (onDelete t' d (onInsert fmt t p st)) \<and>
         pinsCache (onDelete t' d (onInsert fmt t p st)) =
           filter (\<lambda>q. pin_id q \<noteq> pin_id p) (pinsCache st) \<and>
         countEls (onDelete t' d (onInsert fmt t p st)) =
           counts_of (filter (\<lambda>q. pin_id q \<noteq> pin_id p) (pinsCache st)) \<and>
         (pin_id p \<notin> cached_ids st \<longrightarrow>
            pinsCache (onDelete t' d (onInsert fmt t p st)) = pinsCache st \<and>
            countEls (onDelete t' d (onInsert fmt t p st)) = counts_of (pinsCache st))"
proof -
  have c: "pinsCache (onDelete t' d (onInsert fmt t p st)) =
           filter (\<lambda>q. pin_id q \<noteq> pin_id p) (pinsCache st)"
    using assms by (simp add: onDelete_cache onInsert_cache)
  have k: "countEls (onDelete t' d (onInsert fmt t p st)) =
           counts_of (filter (\<lambda>q. pin_id q \<noteq> pin_id p) (pinsCache st))"
    by (simp only: onDelete_counts c)
  have n: "pin_id p \<notin> cached_ids st \<Longrightarrow> filter (\<lambda>q. pin_id q \<noteq> pin_id p) (pinsCache st) = pinsCache st"
    by (rule filter_True) (simp add: not_cached_iff)
  have o: "pin_id p \<notin> cached_ids (onDelete t' d (onInsert fmt t p st))"
    by (simp add: not_cached_iff c)
  show ?thesis
    using c k n o by simp
qed

theorem insert_then_delete_witness:
  "pin_id pin_b \<notin> cached_ids (sample_state [pin_a]) \<and>
   pinsCache (onDelete ''12:04'' pin_b (onInsert (\<lambda>s. s) ''12:03'' pin_b (sample_state [pin_a]))) = [pin_a] \<and>
   countEls (onDelete ''12:04'' pin_b (onInsert (\<lambda>s. s) ''12:03'' pin_b (sample_state [pin_a])))
     = counts_of (pinsCache (sample_state [pin_a]))"
proof -
  have n: "pin_id pin_b \<notin> cached_ids (sample_state [pin_a])"
    by (simp add: not_cached_iff sample_state_cache sample_ids)
  from insert_then_delete[of pin_b pin_b "''12:04''" "\<lambda>s. s" "''12:03''" "sample_state [pin_a]"] n
  show ?thesis by (simp add: sample_state_cache sample_ids)
qed

text \<open>
  The claim as written fails for an identifier that is already cached: the delete
  removes the older record too, and its status loses a count.
\<close>

theorem insert_then_delete_counterexample:
  "countEls (onDelete ''12:04'' pin_a (onInsert (\<lambda>s. s) ''12:03'' pin_a (sample_state [pin_a])))
     \<noteq> counts_of (pinsCache (sample_state [pin_a]))"
  by (simp add: onDelete_counts onDelete_cache onInsert_cache sample_state_cache counts_of_def
      count_pin_def all_statuses_def pin_a_def)

subsection \<open>Filters and dimming\<close>

lemma addPinToMap_eq: "addPinToMap fmt p layers = layers @ [render_one fmt p]"
  by (simp add: addPinToMap_def addLayer_def render_one_def createPinMarker_def Let_def)

lemma foldl_addPinToMap:
  "foldl (\<lambda>ls p. addPinToMap fmt p ls) acc pins = acc @ map (render_one fmt) pins"
  by (induction pins arbitrary: acc) (simp_all add: addPinToMap_eq)

lemma renderPins_map: "renderPins fmt pins layers = map (render_one fmt) pins"
  by (simp add: renderPins_def foldl_addPinToMap)

lemma render_one_pin: "pinData (render_one fmt p) = Some p" "is_rendered (render_one fmt p)"
  "\<not> is_dimmed (render_one fmt p) \<longleftrightarrow> dimmed_class \<notin> class_tokens (getMarkerClassName (status p))"
  by (simp_all add: render_one_def createPinMarker_def Let_def is_rendered_def is_dimmed_def
      dimmed_class_def)

lemma applyFilter_layer_dimmed:
  assumes "pinData m = Some p" "is_rendered m"
  shows "is_dimmed (applyFilter_layer A m) \<longleftrightarrow> status p \<notin> A"
proof -
  from assms(2) obtain el where "element m = Some el"
    by (auto simp: is_rendered_def)
  with assms(1) show ?thesis
    by (simp add: applyFilter_layer_def is_dimmed_def)
qed

lemma applyFilter_layer_frame:
  "pinData (applyFilter_layer A m) = pinData m"
  "is_rendered (applyFilter_layer A m) = is_rendered m"
  by (simp_all add: applyFilter_layer_def is_rendered_def split: option.splits)

lemma clearFilter_layer_undimmed: "\<not> is_dimmed (clearFilter_layer m)"
  by (simp add: clearFilter_layer_def is_dimmed_def split: option.splits)

lemma toggleFilter_fields:
  "pinsCache (toggleFilter s st) = pinsCache st"
  "countEls (toggleFilter s st) = countEls st"
  "activeFilters (toggleFilter s st) =
     (if s \<in> activeFilters st then activeFilters st - {s} else insert s (activeFilters st))"
  "markersLayer (toggleFilter s st) = applyFilter (activeFilters (toggleFilter s st)) (markersLayer st)"
  by (simp_all add: toggleFilter_def updateFilterUI_def Let_def)

lemma resetFilters_fields:
  "pinsCache (resetFilters st) = pinsCache st"
  "countEls (resetFilters st) = countEls st"
  "activeFilters (resetFilters st) = set all_statuses"
  "markersLayer (resetFilters st) = clearFilter (markersLayer st)"
  by (simp_all add: resetFilters_def updateFilterUI_def Let_def)

lemma sample_state_markers: "markersLayer (sample_state pins) = map (render_one (\<lambda>s. s)) pins"
  by (simp add: sample_state_def init_state_def updateCounts_def updateLastUpdated_def Let_def
      renderPins_map)

lemma sample_state_filters: "activeFilters (sample_state pins) = set all_statuses"
  by (simp add: sample_state_def init_state_def updateCounts_def updateLastUpdated_def Let_def)

text \<open>
  C4 (as amended). A toggle and a reset leave the pin cache and the counts shown as
  they are. After a toggle, every rendered marker that carries a pin is dimmed exactly
  when its pin's status is not active. After a reset all five categories are active and
  no marker is dimmed, which is the same thing for every marker whose status is one of
  the five categories.
\<close>

theorem filter_mutation:
  "pinsCache (toggleFilter s st) = pinsCache st \<and>
   countEls (toggleFilter s st) = countEls st \<and>
   counts_of (pinsCache (toggleFilter s st)) = counts_of (pinsCache st) \<and>
   (\<forall>m p. m \<in> set (markersLayer (toggleFilter s st)) \<and> pinData m = Some p \<and> is_rendered m \<longrightarrow>
      (is_dimmed m \<longleftrightarrow> status p \<notin> activeFilters (toggleFilter s st))) \<and>
   pinsCache (resetFilters st) = pinsCache st \<and>
   countEls (resetFilters st) = countEls st \<and>
   counts_of (pinsCache (resetFilters st)) = counts_of (pinsCache st) \<and>
   activeFilters (resetFilters st) = set all_statuses \<and>
   (\<forall>m \<in> set (markersLayer (resetFilters st)). \<not> is_dimmed m) \<and>
   (\<forall>m p. m \<in> set (markersLayer (resetFilters st)) \<and> pinData m = Some p \<and>
        status p \<in> set all_statuses \<longrightarrow>
      (is_dimmed m \<longleftrightarrow> status p \<notin> activeFilters (resetFilters st)))"
proof -
  have t: "\<forall>m p. m \<in> set (markersLayer (toggleFilter s st)) \<and> pinData m = Some p \<and> is_rendered m \<longrightarrow>
      (is_dimmed m \<longleftrightarrow> status p \<notin> activeFilters (toggleFilter s st))"
  proof (intro allI impI)
    fix m p
    assume a: "m \<in> set (markersLayer (toggleFilter s st)) \<and> pinData m = Some p \<and> is_rendered m"
    then obtain m0 where m0: "m0 \<in> set (markersLayer st)"
        "m = applyFilter_layer (activeFilters (toggleFilter s st)) m0"
      by (auto simp: toggleFilter_fields(4) applyFilter_def)
    with a have "pinData m0 = Some p" "is_rendered m0"
      by (simp_all add: applyFilter_layer_frame)
    then show "is_dimmed m \<longleftrightarrow> status p \<notin> activeFilters (toggleFilter s st)"
      unfolding m0(2) by (rule applyFilter_layer_dimmed)
  qed
  have r: "\<forall>m \<in> set (markersLayer (resetFilters st)). \<not> is_dimmed m"
    by (auto simp: resetFilters_fields(4) clearFilter_def clearFilter_layer_undimmed)
  from t r show ?thesis
    by (simp add: toggleFilter_fields(1,2) resetFilters_fields(1,2,3))
qed

theorem filter_mutation_witness:
  "render_one (\<lambda>s. s) pin_a \<in> set (markersLayer (sample_state [pin_a])) \<and>
   applyFilter_layer (activeFilters (toggleFilter ''critical'' (sample_state [pin_a]))) (render_one (\<lambda>s. s) pin_a)
     \<in> set (markersLayer (toggleFilter ''critical'' (sample_state [pin_a]))) \<and>
   status pin_a \<notin> activeFilters (toggleFilter ''critical'' (sample_state [pin_a])) \<and>
   is_dimmed (applyFilter_layer (activeFilters (toggleFilter ''critical'' (sample_state [pin_a])))
                (render_one (\<lambda>s. s) pin_a))"
proof -
  let ?S = "sample_state [pin_a]"
  let ?A = "activeFilters (toggleFilter ''critical'' ?S)"
  let ?m = "applyFilter_layer ?A (render_one (\<lambda>s. s) pin_a)"
  have 1: "render_one (\<lambda>s. s) pin_a \<in> set (markersLayer ?S)"
    by (simp add: sample_state_markers)
  have 2: "?m \<in> set (markersLayer (toggleFilter ''critical'' ?S))"
    by (simp add: toggleFilter_fields(4) applyFilter_def sample_state_markers)
  have 3: "pinData ?m = Some pin_a" "is_rendered ?m"
    by (simp_all add: applyFilter_layer_frame render_one_pin)
  have 4: "status pin_a \<notin> ?A"
    by (simp add: toggleFilter_fields(3) sample_state_filters all_statuses_def pin_a_def)
  from filter_mutation[of "''critical''" ?S] 2 3 have "is_dimmed ?m \<longleftrightarrow> status pin_a \<notin> ?A"
    by blast
  with 1 2 4 show ?thesis by simp
qed

text \<open>
  The claim as written fails for a reset when a pin's status is not one of the five
  categories: its marker is rendered, its status is not in the active set, and it is
  not dimmed.
\<close>

theorem reset_unknown_status_counterexample:
  "clearFilter_layer (render_one (\<lambda>s. s) pin_b) \<in> set (markersLayer (resetFilters (sample_state [pin_b]))) \<and>
   pinData (clearFilter_layer (render_one (\<lambda>s. s) pin_b)) = Some pin_b \<and>
   is_rendered (clearFilter_layer (render_one (\<lambda>s. s) pin_b)) \<and>
   status pin_b \<notin> activeFilters (resetFilters (sample_state [pin_b])) \<and>
   \<not> is_dimmed (clearFilter_layer (render_one (\<lambda>s. s) pin_b))"
  by (simp add: resetFilters_fields clearFilter_def sample_state_markers clearFilter_layer_undimmed
      all_statuses_def)
    (simp add: clearFilter_layer_def render_one_def createPinMarker_def Let_def is_rendered_def pin_b_def)

subsection \<open>Popups\<close>

lemma action_sections_eq:
  "action_sections (createPopupContent fmt p) =
     (if is_true (show_donate p) \<or> is_true (show_volunteer p) \<or> is_true (show_help p)
      then [Elem ''div'' ''pin-popup__actions'' [] [] (action_buttons p)] else [])"
  by (simp add: action_sections_def createPopupContent_def Let_def split: option.splits)

lemma url_button_classes:
  "map className (case url p of
        None \<Rightarrow> []
      | Some u \<Rightarrow>
          if u \<noteq> []
          then [button ''pin-popup__btn pin-popup__btn--url'' u (or_else (url_text p) ''More Info'')]
          else []) =
   (if truthy (url p) then [''pin-popup__btn pin-popup__btn--url''] else [])"
  by (simp add: truthy_def button_def split: option.splits)

lemma action_button_classes:
  "map className (action_buttons p) =
     (if is_true (show_donate p) then [''pin-popup__btn pin-popup__btn--donate''] else []) @
     (if is_true (show_volunteer p) then [''pin-popup__btn pin-popup__btn--volunteer''] else []) @
     (if is_true (show_help p) then [''pin-popup__btn pin-popup__btn--help''] else []) @
     (if truthy (url p) then [''pin-popup__btn pin-popup__btn--url''] else [])"
  unfolding action_buttons_def map_append url_button_classes
  by (simp add: button_def)

text \<open>
  C8. With none of the three flags true the popup has no action-button section. With
  exactly one flag true it has one section, whose buttons are that flag's button
  followed by the custom-link button exactly when the pin's URL is present (a
  non-empty string).
\<close>

theorem popup_action_buttons:
  "(\<not> is_true (show_donate p) \<and> \<not> is_true (show_volunteer p) \<and> \<not> is_true (show_help p) \<longrightarrow>
      action_sections (createPopupContent fmt p) = []) \<and>
   (is_true (show_donate p) \<and> \<not> is_true (show_volunteer p) \<and> \<not> is_true (show_help p) \<longrightarrow>
      map button_classes (action_sections (createPopupContent fmt p)) =
        [[''pin-popup__btn pin-popup__btn--donate''] @
         (if truthy (url p) then [''pin-popup__btn pin-popup__btn--url''] else [])]) \<and>
   (\<not> is_true (show_donate p) \<and> is_true (show_volunteer p) \<and> \<not> is_true (show_help p) \<longrightarrow>
      map button_classes (action_sections (createPopupContent fmt p)) =
        [[''pin-popup__btn pin-popup__btn--volunteer''] @
         (if truthy (url p) then [''pin-popup__btn pin-popup__btn--url''] else [])]) \<and>
   (\<not> is_true (show_donate p) \<and> \<not> is_true (show_volunteer p) \<and> is_true (show_help p) \<longrightarrow>
      map button_classes (action_sections (createPopupContent fmt p)) =
        [[''pin-popup__btn pin-popup__btn--help''] @
         (if truthy (url p) then [''pin-popup__btn pin-popup__btn--url''] else [])])"
  by (simp add: action_sections_eq button_classes_def action_button_classes)

theorem popup_action_buttons_witness:
  "\<not> is_true (show_donate pin_a) \<and> \<not> is_true (show_volunteer pin_a) \<and> \<not> is_true (show_help pin_a) \<and>
   action_sections (createPopupContent (\<lambda>s. s) pin_a) = [] \<and>
   is_true (show_donate pin_b) \<and> \<not> is_true (show_volunteer pin_b) \<and> \<not> is_true (show_help pin_b) \<and>
   truthy (url pin_b) \<and>
   map button_classes (action_sections (createPopupContent (\<lambda>s. s) pin_b)) =
     [[''pin-popup__btn pin-popup__btn--donate'', ''pin-popup__btn pin-popup__btn--url'']] \<and>
   \<not> truthy (url (pin_b\<lparr>url := Some []\<rparr>)) \<and>
   map button_classes (action_sections (createPopupContent (\<lambda>s. s) (pin_b\<lparr>url := Some []\<rparr>))) =
     [[''pin-popup__btn pin-popup__btn--donate'']]"
proof -
  have a: "\<not> is_true (show_donate pin_a) \<and> \<not> is_true (show_volunteer pin_a) \<and> \<not> is_true (show_help pin_a)"
    by (simp add: pin_a_def is_true_def)
  have b: "is_true (show_donate pin_b) \<and> \<not> is_true (show_volunteer pin_b) \<and> \<not> is_true (show_help pin_b)"
    "truthy (url pin_b)" "\<not> truthy (url (pin_b\<lparr>url := Some []\<rparr>))"
    by (simp_all add: pin_b_def is_true_def truthy_def)
  from a popup_action_buttons[of pin_a "\<lambda>s. s"]
  have 1: "action_sections (createPopupContent (\<lambda>s. s) pin_a) = []" by blast
  from b popup_action_buttons[of pin_b "\<lambda>s. s"]
  have 2: "map button_classes (action_sections (createPopupContent (\<lambda>s. s) pin_b)) =
     [[''pin-popup__btn pin-popup__btn--donate'', ''pin-popup__btn pin-popup__btn--url'']]"
    by simp
  from b popup_action_buttons[of "pin_b\<lparr>url := Some []\<rparr>" "\<lambda>s. s"]
  have 3: "map button_classes (action_sections (createPopupContent (\<lambda>s. s) (pin_b\<lparr>url := Some []\<rparr>))) =
     [[''pin-popup__btn pin-popup__btn--donate'']]"
    by simp
  from a b 1 2 3 show ?thesis by simp
qed

subsection \<open>Fallback styling\<close>

lemma fallback_for_unknown_status:
  assumes "status p \<notin> set all_statuses" "status p \<notin> set object_prototype_keys"
  shows "fillColor (createPinMarker p) = Some (color status_active)"
    and "attrs (hd (children (hd (children (createPopupContent fmt p))))) =
           [(''style.backgroundColor'', color status_active)]"
  using assms
  by (simp_all add: createPinMarker_def createPopupContent_def status_or_active_def PIN_STATUS_def
      color_of_def style_bg_def all_statuses_def Let_def)

text \<open>
  C9 fails for a status that names a member of \<open>Object.prototype\<close>: the lookup in
  \<open>PIN_STATUS\<close> finds the inherited member, which is truthy, so the default entry is
  not taken and there is no colour. The marker gets no fill colour and the popup's
  status dot no background colour.
\<close>

theorem inherited_status_no_fallback:
  "status pin_c = ''constructor'' \<and>
   status pin_c \<notin> set all_statuses \<and>
   fillColor (createPinMarker pin_c) = None \<and>
   children (hd (children (createPopupContent (\<lambda>s. s) pin_c))) =
     [Elem ''span'' ''pin-popup__status'' [] [] [], Elem ''span'' ''pin-popup__title'' [] ''Shelter'' []]"
  by (simp add: pin_c_def pin_a_def all_statuses_def createPinMarker_def createPopupContent_def
      status_or_active_def PIN_STATUS_def object_prototype_keys_def color_of_def style_bg_def Let_def)

subsection \<open>Loading the pins\<close>

lemma supabaseRequest_failures:
  "session_outcome env = Inl e \<Longrightarrow> supabaseRequest env = Inl e"
  "session_outcome env = Inr s \<Longrightarrow> fetch_outcome env = Inl e \<Longrightarrow> supabaseRequest env = Inl e"
  "session_outcome env = Inr s \<Longrightarrow> fetch_outcome env = Inr r \<Longrightarrow> \<not> ok r \<Longrightarrow>
     \<exists>e'. supabaseRequest env = Inl e'"
  "session_outcome env = Inr s \<Longrightarrow> fetch_outcome env = Inr r \<Longrightarrow> ok r \<Longrightarrow> body_text r = Inl e \<Longrightarrow>
     supabaseRequest env = Inl e"
  "session_outcome env = Inr s \<Longrightarrow> fetch_outcome env = Inr r \<Longrightarrow> ok r \<Longrightarrow> body_text r = Inr txt \<Longrightarrow>
     txt \<noteq> [] \<Longrightarrow> parse env txt = Inl e \<Longrightarrow> supabaseRequest env = Inl e"
  by (simp_all add: supabaseRequest_def split: sum.splits)

text \<open>
  \<open>getAllPins\<close> never rejects. It resolves to the empty array when the request fails
  in any way and when the body is empty or falsy, and to the parsed body otherwise:
  an array when the body is one.
\<close>

lemma getAllPins_never_rejects:
  "(\<exists>v. getAllPins env = Inr v) \<and>
   (\<forall>e. supabaseRequest env = Inl e \<longrightarrow> getAllPins env = Inr (JArray [])) \<and>
   (\<forall>v. supabaseRequest env = Inr v \<and> \<not> js_truthy v \<longrightarrow> getAllPins env = Inr (JArray [])) \<and>
   (\<forall>v. supabaseRequest env = Inr v \<and> js_truthy v \<longrightarrow> getAllPins env = Inr v) \<and>
   (\<forall>rows. supabaseRequest env = Inr (JArray rows) \<longrightarrow> getAllPins env = Inr (JArray rows))"
  by (auto simp: getAllPins_def split: sum.splits)

lemma init_after_failure:
  "supabaseRequest env = Inl e \<Longrightarrow> init fmt t legend cls env = Inr (init_state fmt t legend cls [])"
  by (simp add: init_def getAllPins_def)

lemma getAllPins_failing_env:
  "getAllPins failing_env = Inr (JArray [])"
  "init (\<lambda>s. s) ''12:00'' [] {} failing_env = Inr (init_state (\<lambda>s. s) ''12:00'' [] {} [])"
  by (simp_all add: init_def getAllPins_def supabaseRequest_def failing_env_def)

text \<open>
  C10 says that \<open>getAllPins\<close> resolves to an array whatever the request meets, so that
  \<open>init\<close> goes on. That fails when the store answers with a success status and a body
  that parses to a truthy value other than an array, here the object \<open>{}\<close>:
  \<open>pins || []\<close> hands the object on, and \<open>init\<close> ends with the \<open>TypeError\<close> of
  \<open>pins.forEach\<close>.
\<close>

theorem getAllPins_object_body:
  "supabaseRequest object_env = Inr JObject \<and>
   getAllPins object_env = Inr JObject \<and>
   init (\<lambda>s. s) ''12:00'' [] {} object_env = Inl TypeError"
  by (simp add: init_def getAllPins_def supabaseRequest_def object_env_def)

subsection \<open>Search input validation\<close>

lemma show_ev_simps:
  "fst (show_ev m k r) = fst r @ [ShowSearchResult m k]"
  "snd (show_ev m k r) = showSearchResult m k (snd r)"
  by (simp_all add: show_ev_def)

lemma catch_block_events:
  "fst (catch_block r) = fst r @ [ConsoleError, ShowSearchResult msg_failed KError]"
  by (simp add: catch_block_def show_ev_def)

lemma geocode_events: "fst (geocode net q) = [geocode_request q]"
  by (simp add: geocode_def)

lemma handleSearch_on_invalid:
  "trim input = [] \<Longrightarrow>
     handleSearch_on ar h net input st =
       ([ShowSearchResult msg_empty KError], showSearchResult msg_empty KError st)"
  "trim input \<noteq> [] \<Longrightarrow> \<not> zip_test (trim input) \<Longrightarrow>
     handleSearch_on ar h net input st =
       ([ShowSearchResult msg_invalid KError], showSearchResult msg_invalid KError st)"
  by (simp_all add: handleSearch_on_def show_ev_def Let_def)

lemma handleSearch_on_valid:
  assumes "zip_test (trim input)"
  shows "\<exists>rest. fst (handleSearch_on ar h net input st) =
           ShowSearchResult msg_searching KNeutral # geocode_request (trim input) # rest \<and>
           (\<forall>u ps. Fetch u ps \<notin> set rest) \<and>
           ShowSearchResult msg_empty KError \<notin> set rest \<and>
           ShowSearchResult msg_invalid KError \<notin> set rest"
proof -
  from assms have ne: "trim input \<noteq> []"
    by (auto simp: zip_test_def)
  have d: "msg_failed \<noteq> msg_empty" "msg_failed \<noteq> msg_invalid"
    "msg_not_found (trim input) \<noteq> msg_empty" "msg_not_found (trim input) \<noteq> msg_invalid"
    by (simp_all add: msg_failed_def msg_empty_def msg_invalid_def msg_not_found_def lit_def)
  show ?thesis
    using assms ne d
    by (auto simp: handleSearch_on_def Let_def show_ev_def catch_block_def geocode_def
        geocode_request_def split: prod.splits sum.splits option.splits geo_response.splits
        geo_body.splits list.splits)
qed

lemma validation_messages_distinct:
  "msg_empty \<noteq> msg_not_found q" "msg_invalid \<noteq> msg_not_found q"
  "msg_empty \<noteq> msg_failed" "msg_invalid \<noteq> msg_failed"
  by (simp_all add: msg_failed_def msg_empty_def msg_invalid_def msg_not_found_def lit_def)

text \<open>
  C3. \<open>handleSearch\<close> sends a request exactly when the trimmed input is five decimal
  digits. Any other input, the empty one included, yields nothing but one validation
  message; a valid input yields the progress message and then the request, and no
  validation message. The validation messages differ from the not-found message and
  from the failure message.
\<close>

theorem handleSearch_validation:
  "((\<exists>u ps. Fetch u ps \<in> set (fst (handleSearch ar net input st))) \<longleftrightarrow> zip_test (trim input)) \<and>
   (trim input = [] \<longrightarrow>
      handleSearch ar net input st =
        ([ShowSearchResult msg_empty KError], showSearchResult msg_empty KError st)) \<and>
   (trim input \<noteq> [] \<and> \<not> zip_test (trim input) \<longrightarrow>
      handleSearch ar net input st =
        ([ShowSearchResult msg_invalid KError], showSearchResult msg_invalid KError st)) \<and>
   (zip_test (trim input) \<longrightarrow>
      (\<exists>rest. fst (handleSearch ar net input st) =
          ShowSearchResult msg_searching KNeutral # geocode_request (trim input) # rest \<and>
          ShowSearchResult msg_empty KError \<notin> set rest \<and>
          ShowSearchResult msg_invalid KError \<notin> set rest)) \<and>
   msg_empty \<noteq> msg_not_found q \<and> msg_invalid \<noteq> msg_not_found q \<and>
   msg_empty \<noteq> msg_failed \<and> msg_invalid \<noteq> msg_failed"
proof -
  have e: "\<not> zip_test []" by (simp add: zip_test_def)
  have 1: "(\<exists>u ps. Fetch u ps \<in> set (fst (handleSearch ar net input st))) \<longleftrightarrow> zip_test (trim input)"
  proof (cases "zip_test (trim input)")
    case True
    from handleSearch_on_valid[OF True, where ar = ar and h = getMap and net = net and st = st]
    show ?thesis using True
      by (auto simp: handleSearch_def geocode_request_def)
  next
    case False
    show ?thesis
    proof (cases "trim input = []")
      case True
      with False show ?thesis
        by (simp add: handleSearch_def handleSearch_on_invalid(1))
    next
      case ne: False
      with False show ?thesis
        by (simp add: handleSearch_def handleSearch_on_invalid(2))
    qed
  qed
  have 4: "zip_test (trim input) \<longrightarrow>
      (\<exists>rest. fst (handleSearch ar net input st) =
          ShowSearchResult msg_searching KNeutral # geocode_request (trim input) # rest \<and>
          ShowSearchResult msg_empty KError \<notin> set rest \<and>
          ShowSearchResult msg_invalid KError \<notin> set rest)"
    using handleSearch_on_valid[where input = input and ar = ar and h = getMap and net = net and st = st]
    by (auto simp: handleSearch_def)
  from 1 4 show ?thesis
    by (simp add: handleSearch_def handleSearch_on_invalid validation_messages_distinct)
qed

lemma trim_samples:
  "trim (lit ''1234'') = lit ''1234''" "trim (lit ''abcde'') = lit ''abcde''"
  "trim (lit ''  '') = []" "trim (lit '' 70112 '') = lit ''70112''"
  by (simp_all add: trim_def lit_def is_js_whitespace_def)

lemma zip_test_samples:
  "\<not> zip_test (lit ''1234'')" "\<not> zip_test (lit ''abcde'')" "zip_test (lit ''70112'')"
  by (simp_all add: zip_test_def lit_def is_digit_def)

theorem handleSearch_validation_witness:
  "\<forall>ar.
     \<not> zip_test (trim (lit ''1234'')) \<and>
     fst (handleSearch ar (Response True (Results [sample_match])) (lit ''1234'') (sample_state [pin_a])) =
       [ShowSearchResult msg_invalid KError] \<and>
     \<not> zip_test (trim (lit ''abcde'')) \<and>
     fst (handleSearch ar (Response True (Results [sample_match])) (lit ''abcde'') (sample_state [pin_a])) =
       [ShowSearchResult msg_invalid KError] \<and>
     trim (lit ''  '') = [] \<and>
     fst (handleSearch ar (Response True (Results [sample_match])) (lit ''  '') (sample_state [pin_a])) =
       [ShowSearchResult msg_empty KError] \<and>
     zip_test (trim (lit '' 70112 '')) \<and>
     (\<exists>u ps. Fetch u ps \<in>
        set (fst (handleSearch ar (Response True (Results [])) (lit '' 70112 '') (sample_state [pin_a]))))"
proof (rule allI)
  fix ar :: js_arith
  let ?net = "Response True (Results [sample_match])"
  let ?S = "sample_state [pin_a]"
  have a: "\<not> zip_test (trim (lit ''1234''))" "trim (lit ''1234'') \<noteq> []"
    by (simp_all add: trim_samples zip_test_samples) (simp add: lit_def)
  have b: "\<not> zip_test (trim (lit ''abcde''))" "trim (lit ''abcde'') \<noteq> []"
    by (simp_all add: trim_samples zip_test_samples) (simp add: lit_def)
  have c: "trim (lit ''  '') = []"
    by (simp add: trim_samples)
  have d: "zip_test (trim (lit '' 70112 ''))"
    by (simp add: trim_samples zip_test_samples)
  from a handleSearch_validation[of ar ?net "lit ''1234''" ?S]
  have 1: "fst (handleSearch ar ?net (lit ''1234'') ?S) = [ShowSearchResult msg_invalid KError]"
    by simp
  from b handleSearch_validation[of ar ?net "lit ''abcde''" ?S]
  have 2: "fst (handleSearch ar ?net (lit ''abcde'') ?S) = [ShowSearchResult msg_invalid KError]"
    by simp
  from c handleSearch_validation[of ar ?net "lit ''  ''" ?S]
  have 3: "fst (handleSearch ar ?net (lit ''  '') ?S) = [ShowSearchResult msg_empty KError]"
    by simp
  from d handleSearch_validation[of ar "Response True (Results [])" "lit '' 70112 ''" ?S]
  have 4: "\<exists>u ps. Fetch u ps \<in>
      set (fst (handleSearch ar (Response True (Results [])) (lit '' 70112 '') ?S))"
    by blast
  from a(1) b(1) c d 1 2 3 4
  show "\<not> zip_test (trim (lit ''1234'')) \<and>
     fst (handleSearch ar ?net (lit ''1234'') ?S) = [ShowSearchResult msg_invalid KError] \<and>
     \<not> zip_test (trim (lit ''abcde'')) \<and>
     fst (handleSearch ar ?net (lit ''abcde'') ?S) = [ShowSearchResult msg_invalid KError] \<and>
     trim (lit ''  '') = [] \<and>
     fst (handleSearch ar ?net (lit ''  '') ?S) = [ShowSearchResult msg_empty KError] \<and>
     zip_test (trim (lit '' 70112 '')) \<and>
     (\<exists>u ps. Fetch u ps \<in>
        set (fst (handleSearch ar (Response True (Results [])) (lit '' 70112 '') ?S)))"
    by blast
qed

subsection \<open>The search circle, with a map in hand\<close>

text \<open>
  When \<open>map\<close> is the Leaflet map, \<open>drawSearchCircle\<close> does what its comments say:
  it removes the circle that \<open>searchCircle\<close> holds and then adds the new one, so the
  circles on the map stay the one that \<open>searchCircle\<close> holds, and a search keeps it
  so.
\<close>

lemma overlay_inv_cong:
  "mapOverlays st' = mapOverlays st \<Longrightarrow> searchCircle st' = searchCircle st \<Longrightarrow>
     overlay_inv st' = overlay_inv st"
  by (simp add: overlay_inv_def)

lemma handlers_keep_circle:
  "mapOverlays (toggleFilter s st) = mapOverlays st" "searchCircle (toggleFilter s st) = searchCircle st"
  "mapOverlays (resetFilters st) = mapOverlays st" "searchCircle (resetFilters st) = searchCircle st"
  "mapOverlays (onInsert fmt t p st) = mapOverlays st" "searchCircle (onInsert fmt t p st) = searchCircle st"
  "mapOverlays (onUpdate fmt t p st) = mapOverlays st" "searchCircle (onUpdate fmt t p st) = searchCircle st"
  "mapOverlays (onDelete t p st) = mapOverlays st" "searchCircle (onDelete t p st) = searchCircle st"
  "mapOverlays (showSearchResult m k st) = mapOverlays st"
  "searchCircle (showSearchResult m k st) = searchCircle st"
  by (simp_all add: toggleFilter_def resetFilters_def updateFilterUI_def onInsert_def onUpdate_def
      onDelete_def updateCounts_def updateLastUpdated_def showSearchResult_def Let_def
      split: option.splits)

lemma removeExisting_inv:
  assumes "overlay_inv st"
  shows "length (mapOverlays (snd (removeExisting h st))) \<le> 1"
    and "fst (removeExisting h st) = None \<Longrightarrow> mapOverlays (snd (removeExisting h st)) = []"
  using assms
  by (auto simp: overlay_inv_def removeExisting_def split: option.splits map_handle.splits)

lemma drawSearchCircle_on_inv:
  assumes "overlay_inv st" "drawSearchCircle_on h la lo st = (e, st')"
  shows "overlay_inv st'"
    and "e = None \<Longrightarrow> map center (mapOverlays st') = [(la, lo)]"
  using assms
  by (auto simp: overlay_inv_def drawSearchCircle_on_def removeExisting_def drawNew_def Let_def
      split: option.splits map_handle.splits)

lemma overlay_inv_length: "overlay_inv st \<Longrightarrow> length (mapOverlays st) \<le> 1"
  by (simp add: overlay_inv_def split: option.splits)

lemma overlay_inv_show: "overlay_inv (showSearchResult m k st) = overlay_inv st"
  by (rule overlay_inv_cong) (simp_all add: handlers_keep_circle)

lemma overlay_inv_view: "overlay_inv (st\<lparr>mapView := v\<rparr>) = overlay_inv st"
  by (simp add: overlay_inv_def)

lemma handleSearch_on_inv:
  assumes "overlay_inv st"
  shows "overlay_inv (snd (handleSearch_on ar h net input st))"
  using assms
  by (auto simp: handleSearch_on_def Let_def show_ev_def catch_block_def overlay_inv_show
      overlay_inv_view split: prod.splits sum.splits option.splits
      dest: drawSearchCircle_on_inv(1)[rotated])

lemma search_samples:
  "trim (lit ''70112'') = lit ''70112''" "zip_test (lit ''70112'')"
  by (simp_all add: trim_def zip_test_def lit_def is_js_whitespace_def is_digit_def)

lemma handleSearch_on_found:
  assumes "zip_test (trim input)"
  shows "snd (handleSearch_on ar h (Response True (Results (m # ms))) input st) =
     (let st1 = (showSearchResult msg_searching KNeutral st)\<lparr>mapView := Some ((match_lat m, match_lon m), 9)\<rparr>;
          r = drawSearchCircle_on h (match_lat m) (match_lon m) st1;
          cs = \<lparr> c_lat = match_lat m, c_lng = match_lon m,
                 display = trim (join [0x2C] (take 2 (split_on 0x2C (display_name m)))) \<rparr>;
          n = length (findPinsInRadius ar (Num (match_lat m)) (Num (match_lon m))
                        (Num SEARCH_RADIUS_MILES) st1)
      in case fst r of
           Some err \<Rightarrow> showSearchResult msg_failed KError (snd r)
         | None \<Rightarrow>
             if n = 0 then showSearchResult (msg_none_within (trim input) cs) KNeutral (snd r)
             else showSearchResult (msg_within (trim input) cs n) KSuccess (snd r))"
proof -
  from assms have "trim input \<noteq> []" by (auto simp: zip_test_def)
  with assms show ?thesis
    by (simp add: handleSearch_on_def geocode_def Let_def show_ev_def catch_block_def
        findPinsInRadius_def showSearchResult_def
        split: prod.splits option.splits)
qed

subsection \<open>The search circle as main.js has it\<close>

text \<open>
  With the promise that \<open>getMap()\<close> yields in main.js, \<open>drawSearchCircle\<close> raises on
  every call and never puts a circle on the map; a search whose postal code was found
  therefore ends in the \<open>catch\<close> block with the failure message.
\<close>

lemma drawSearchCircle_raises:
  "fst (drawSearchCircle la lo st) = Some TypeError"
  "mapOverlays (snd (drawSearchCircle la lo st)) = mapOverlays st"
  "searchCircle (snd (drawSearchCircle la lo st)) = searchCircle st"
  by (simp_all add: drawSearchCircle_def drawSearchCircle_on_def removeExisting_def drawNew_def
      getMap_def Let_def split: option.splits)

lemma handleSearch_keeps_circle:
  "mapOverlays (snd (handleSearch ar net input st)) = mapOverlays st"
  "searchCircle (snd (handleSearch ar net input st)) = searchCircle st"
  using drawSearchCircle_raises(2,3)
  by (auto simp: handleSearch_def handleSearch_on_def Let_def show_ev_def catch_block_def
      handlers_keep_circle drawSearchCircle_def split: prod.splits sum.splits option.splits
      dest!: arg_cong[where f = snd])

lemma handleSearch_found_fails:
  assumes "zip_test (trim input)"
  shows "searchResultText (snd (handleSearch ar (Response True (Results (m # ms))) input st)) = msg_failed"
  using drawSearchCircle_raises(1)[of "match_lat m" "match_lon m"]
  by (simp add: handleSearch_def handleSearch_on_found[OF assms] Let_def showSearchResult_def
      drawSearchCircle_def)

lemma sample_state_circle:
  "mapOverlays (sample_state pins) = []" "searchCircle (sample_state pins) = None"
  by (simp_all add: sample_state_def init_state_def updateCounts_def updateLastUpdated_def Let_def)

text \<open>
  C6 asks that a search removes the circle drawn before and draws the new one, so that
  the map shows the circle of the latest search and never two. main.js does not get
  that far: after the first search whose postal code was found, \<open>drawSearchCircle\<close>
  has raised a \<open>TypeError\<close>, the map has no circle, \<open>searchCircle\<close> is still empty and
  the message shown is the failure message.
\<close>

theorem search_circle_never_drawn:
  "zip_test (trim (lit ''70112'')) \<and>
   fst (drawSearchCircle (match_lat sample_match) (match_lon sample_match) (sample_state [pin_a]))
     = Some TypeError \<and>
   mapOverlays (snd (handleSearch ar (Response True (Results [sample_match])) (lit ''70112'')
                       (sample_state [pin_a]))) = [] \<and>
   searchCircle (snd (handleSearch ar (Response True (Results [sample_match])) (lit ''70112'')
                        (sample_state [pin_a]))) = None \<and>
   searchResultText (snd (handleSearch ar (Response True (Results [sample_match])) (lit ''70112'')
                            (sample_state [pin_a]))) = msg_failed"
proof -
  have z: "zip_test (trim (lit ''70112''))"
    by (simp add: search_samples)
  show ?thesis
    using z
    by (simp add: drawSearchCircle_raises(1) handleSearch_keeps_circle sample_state_circle
        handleSearch_found_fails[OF z])
qed

end
